theory Spec2Isabelle
  imports Main "HOL-Library.Word"
begin

section \<open>Notebook content metadata (package rmtool)\<close>

text \<open>
  The \<^verbatim>\<open>.content\<close> file of a notebook. Go's \<^verbatim>\<open>int\<close>-based enumerations
  (\<^verbatim>\<open>FileType\<close>, \<^verbatim>\<open>Orientation\<close>, \<^verbatim>\<open>TextAlign\<close>, \<^verbatim>\<open>LineHeight\<close>) are integers with
  named constants: a value decoded or assigned from elsewhere can lie outside the named
  ones, which is what \<^verbatim>\<open>Validate\<close> guards against. Only comparisons are made on these
  integers, so mathematical integers behave exactly as the machine ones.
\<close>

type_synonym Orientation = int
type_synonym FileType = int
type_synonym LineHeight = int
type_synonym TextAlign = int

definition Portrait :: Orientation where "Portrait = 0"
definition Landscape :: Orientation where "Landscape = 1"

definition Notebook :: FileType where "Notebook = 0"
definition Epub :: FileType where "Epub = 1"
definition Pdf :: FileType where "Pdf = 2"

definition LineHeightDefault :: LineHeight where "LineHeightDefault = - 1"
definition LineHeightSmall :: LineHeight where "LineHeightSmall = 100"
definition LineHeightMedium :: LineHeight where "LineHeightMedium = 150"
definition LineHeightLarge :: LineHeight where "LineHeightLarge = 200"

definition AlignLeft :: TextAlign where "AlignLeft = 0"
definition AlignJustify :: TextAlign where "AlignJustify = 1"

definition blankTemplate :: string where "blankTemplate = ''Blank''"
definition maxLayers :: int where "maxLayers = 5"
definition defaultCoverPage :: int where "defaultCoverPage = - 1"

record Transform =
  M11 :: int
  M12 :: int
  M13 :: int
  M21 :: int
  M22 :: int
  M23 :: int
  M31 :: int
  M32 :: int
  M33 :: int

definition NewTransform :: Transform where
  "NewTransform = \<lparr>M11 = 1, M12 = 0, M13 = 0, M21 = 0, M22 = 1, M23 = 0,
                   M31 = 0, M32 = 0, M33 = 1\<rparr>"

text \<open>
  The fields of \<^verbatim>\<open>Content\<close> in declaration order. \<^verbatim>\<open>ExtraMetadata\<close> (the last-used tool
  settings) and the \<^verbatim>\<open>float32\<close> field \<^verbatim>\<open>TextScale\<close> are never read by \<^verbatim>\<open>Validate\<close>; they
  live in the extension slot of the record, so every function below is stated for
  \<open>'a Content_scheme\<close>.
\<close>

record Content =
  DummyDocument :: bool
  FileType :: FileType
  Orientation :: Orientation
  PageCount :: int
  Pages :: "string list"
  CoverPageNumber :: int
  FontName :: string
  LineHeight :: LineHeight
  Margins :: int
  TextAlignment :: TextAlign
  Transform :: Transform

definition NewContent :: "FileType \<Rightarrow> Content" where
  "NewContent f =
     \<lparr>DummyDocument = False, FileType = f, Orientation = Portrait, PageCount = 0,
      Pages = [], CoverPageNumber = defaultCoverPage, FontName = [],
      LineHeight = LineHeightDefault, Margins = 100, TextAlignment = AlignLeft,
      Transform = NewTransform\<rparr>"

text \<open>
  \<^verbatim>\<open>errors.NewValidationError(format, args...)\<close>: one constructor per call site of
  \<^verbatim>\<open>Content.Validate\<close>, carrying the arguments of the message.
\<close>

datatype ValidationError =
    InvalidFileType int
  | InvalidOrientation int
  | PageCountMismatch int int
  | CoverPageNotExisting int
  | InvalidTextAlign int

text \<open>\<^verbatim>\<open>func (c *Content) Validate() error\<close>; \<open>None\<close> is the \<^verbatim>\<open>nil\<close> error.\<close>

definition Validate :: "'a Content_scheme \<Rightarrow> ValidationError option" where
  "Validate c =
     (if \<not> (FileType c = Notebook \<or> FileType c = Pdf \<or> FileType c = Epub) then
        Some (InvalidFileType (FileType c))
      else if \<not> (Orientation c = Portrait \<or> Orientation c = Landscape) then
        Some (InvalidOrientation (Orientation c))
      else if PageCount c \<noteq> int (length (Pages c)) then
        Some (PageCountMismatch (PageCount c) (int (length (Pages c))))
      else if CoverPageNumber c \<noteq> defaultCoverPage \<and>
              (CoverPageNumber c < 1 \<or> CoverPageNumber c > PageCount c) then
        Some (CoverPageNotExisting (CoverPageNumber c))
      else if \<not> (TextAlignment c = AlignLeft \<or> TextAlignment c = AlignJustify) then
        Some (InvalidTextAlign (TextAlignment c))
      else None)"


section \<open>Go's image package: points, rectangles, RGBA images\<close>

text \<open>
  Go's \<^verbatim>\<open>int\<close> is a 64-bit two's complement integer on the platforms the tool is built
  for. Coordinates are kept as mathematical integers and the wrap-around of every
  subtraction, multiplication and addition is written out with \<open>wrap64\<close>.
\<close>

definition wrap64 :: "int \<Rightarrow> int" where
  "wrap64 n = (n + 2 ^ 63) mod 2 ^ 64 - 2 ^ 63"

record Point =
  pX :: int
  pY :: int

record Rectangle =
  rMin :: Point
  rMax :: Point

text \<open>\<^verbatim>\<open>image.ZR\<close>, the zero rectangle.\<close>

definition ZR :: Rectangle where
  "ZR = \<lparr>rMin = \<lparr>pX = 0, pY = 0\<rparr>, rMax = \<lparr>pX = 0, pY = 0\<rparr>\<rparr>"

text \<open>\<^verbatim>\<open>image.Rect(x0, y0, x1, y1)\<close> swaps the coordinates of a badly ordered pair.\<close>

definition Rect :: "int \<Rightarrow> int \<Rightarrow> int \<Rightarrow> int \<Rightarrow> Rectangle" where
  "Rect x0 y0 x1 y1 =
     (let (x0', x1') = (if x0 > x1 then (x1, x0) else (x0, x1));
          (y0', y1') = (if y0 > y1 then (y1, y0) else (y0, y1))
      in \<lparr>rMin = \<lparr>pX = x0', pY = y0'\<rparr>, rMax = \<lparr>pX = x1', pY = y1'\<rparr>\<rparr>)"

definition Dx :: "Rectangle \<Rightarrow> int" where
  "Dx r = wrap64 (pX (rMax r) - pX (rMin r))"

definition Dy :: "Rectangle \<Rightarrow> int" where
  "Dy r = wrap64 (pY (rMax r) - pY (rMin r))"

text \<open>
  The width and height of a rectangle in plain words, as mathematical integers; \<open>Dx\<close>
  and \<open>Dy\<close> agree with them when the difference fits an \<^verbatim>\<open>int\<close>.
\<close>

definition plain_width :: "Rectangle \<Rightarrow> int" where
  "plain_width r = pX (rMax r) - pX (rMin r)"

definition plain_height :: "Rectangle \<Rightarrow> int" where
  "plain_height r = pY (rMax r) - pY (rMin r)"

definition fits_int :: "int \<Rightarrow> bool" where
  "fits_int n \<longleftrightarrow> - (2 ^ 63) \<le> n \<and> n < 2 ^ 63"

definition Empty :: "Rectangle \<Rightarrow> bool" where
  "Empty r \<longleftrightarrow> pX (rMin r) \<ge> pX (rMax r) \<or> pY (rMin r) \<ge> pY (rMax r)"

definition Intersect :: "Rectangle \<Rightarrow> Rectangle \<Rightarrow> Rectangle" where
  "Intersect r s =
     (let minx = (if pX (rMin r) < pX (rMin s) then pX (rMin s) else pX (rMin r));
          miny = (if pY (rMin r) < pY (rMin s) then pY (rMin s) else pY (rMin r));
          maxx = (if pX (rMax r) > pX (rMax s) then pX (rMax s) else pX (rMax r));
          maxy = (if pY (rMax r) > pY (rMax s) then pY (rMax s) else pY (rMax r));
          r' = \<lparr>rMin = \<lparr>pX = minx, pY = miny\<rparr>, rMax = \<lparr>pX = maxx, pY = maxy\<rparr>\<rparr>
      in if Empty r' then ZR else r')"

text \<open>\<^verbatim>\<open>func (r Rectangle) In(s Rectangle) bool\<close>: every point of \<open>r\<close> is a point of \<open>s\<close>.\<close>

definition In :: "Rectangle \<Rightarrow> Rectangle \<Rightarrow> bool" where
  "In r s \<longleftrightarrow>
     (if Empty r then True
      else pX (rMin s) \<le> pX (rMin r) \<and> pX (rMax r) \<le> pX (rMax s) \<and>
           pY (rMin s) \<le> pY (rMin r) \<and> pY (rMax r) \<le> pY (rMax s))"

text \<open>\<^verbatim>\<open>func (p Point) In(r Rectangle) bool\<close>.\<close>

definition PointIn :: "Point \<Rightarrow> Rectangle \<Rightarrow> bool" where
  "PointIn p r \<longleftrightarrow>
     pX (rMin r) \<le> pX p \<and> pX p < pX (rMax r) \<and> pY (rMin r) \<le> pY p \<and> pY p < pY (rMax r)"

text \<open>
  \<^verbatim>\<open>image.RGBA\<close>: the pixel bytes, the stride between rows and the bounds. A sub-image
  shares the pixel storage of its parent: its \<open>Pix\<close> is the parent's slice from the
  offset of its top-left pixel.
\<close>

type_synonym byte = "8 word"

record RGBA =
  Pix :: "byte list"
  Stride :: int
  Bounds :: Rectangle

text \<open>The 8-bit channels \<open>(R, G, B, A)\<close> of \<^verbatim>\<open>color.RGBA\<close>.\<close>

type_synonym rgba = "byte \<times> byte \<times> byte \<times> byte"

text \<open>
  A decoded picture (\<^verbatim>\<open>image.Image\<close>): its bounds and, for each position, its colour
  converted by \<^verbatim>\<open>color.RGBAModel\<close>, which is what \<^verbatim>\<open>RGBA.Set\<close> stores.
\<close>

record Image =
  img_Bounds :: Rectangle
  img_At :: "int \<Rightarrow> int \<Rightarrow> rgba"

definition PixOffset :: "RGBA \<Rightarrow> int \<Rightarrow> int \<Rightarrow> int" where
  "PixOffset p x y =
     wrap64 ((y - pY (rMin (Bounds p))) * Stride p + (x - pX (rMin (Bounds p))) * 4)"


text \<open>
  Modelled from the spec: the declarations of \<^verbatim>\<open>lines.BrushType\<close> and \<^verbatim>\<open>lines.BrushColor\<close>
  are not among the sources; the spec calls them a brush-kind identifier and a colour
  identifier. They are the constants that \<^verbatim>\<open>context.go\<close> names (pairwise different, since
  they are the keys of one map literal) and, as \<open>lines_OtherBrushType n\<close> and
  \<open>lines_OtherBrushColor n\<close>, every other value of the type.
\<close>

datatype BrushType =
    lines_Ballpoint | lines_BallpointV5
  | lines_Pencil | lines_PencilV5
  | lines_MechanicalPencil | lines_MechanicalPencilV5
  | lines_Marker | lines_MarkerV5
  | lines_Fineliner | lines_FinelinerV5
  | lines_Highlighter | lines_HighlighterV5
  | lines_PaintBrush | lines_PaintBrushV5
  | lines_CalligraphyV5
  | lines_OtherBrushType nat

datatype BrushColor = lines_Black | lines_Gray | lines_White | lines_OtherBrushColor nat

text \<open>
  Failures of the render package. The first five are the \<^verbatim>\<open>fmt.Errorf\<close> values built in
  \<^verbatim>\<open>context.go\<close>, the sixth the one of \<^verbatim>\<open>renderPdf\<close>; \<open>IOError\<close> carries the message of an
  error returned by the operating system or a decoder, and \<open>Panic\<close> is a run-time panic.
\<close>

datatype error =
    InvalidColor BrushColor
  | UnsupportedBrushType BrushType
  | NoSpriteImage string
  | InvalidSpriteEntry string
  | SpriteBoundsNotWithin
  | RenderPdfNotSupported FileType
  | IOError string
  | Panic string

text \<open>
  \<^verbatim>\<open>mul3NonNeg(x, y, z)\<close> of the image package: the product, or \<open>-1\<close> when an argument is
  negative, when \<open>x * y\<close> or the whole product does not fit 64 unsigned bits, or when the
  product does not fit an \<^verbatim>\<open>int\<close>.
\<close>

definition mul3NonNeg :: "int \<Rightarrow> int \<Rightarrow> int \<Rightarrow> int" where
  "mul3NonNeg x y z =
     (if x < 0 \<or> y < 0 \<or> z < 0 then - 1
      else if x * y \<ge> 2 ^ 64 then - 1
      else if x * y * z \<ge> 2 ^ 64 then - 1
      else if x * y * z \<ge> 2 ^ 63 then - 1
      else x * y * z)"

text \<open>
  The largest allocation the run-time accepts (\<^verbatim>\<open>maxAlloc\<close>; 48 address bits on the 64-bit
  Linux targets): \<^verbatim>\<open>make\<close> panics on a longer slice.
\<close>

definition maxAlloc :: int where
  "maxAlloc = 2 ^ 48"

text \<open>
  \<^verbatim>\<open>image.NewRGBA(r)\<close> allocates \<open>4 * Dx r * Dy r\<close> zero bytes. It panics when
  \<^verbatim>\<open>mul3NonNeg\<close> gives up on the length, and \<^verbatim>\<open>make\<close> panics when the length is beyond the
  allocation limit. Running out of memory below that limit ends the process and is not
  part of the model.
\<close>

definition NewRGBA :: "Rectangle \<Rightarrow> error + RGBA" where
  "NewRGBA r =
     (let n = mul3NonNeg 4 (Dx r) (Dy r) in
      if n < 0 then
        Inl (Panic ''image: NewRGBA Rectangle has huge or negative dimensions'')
      else if n > maxAlloc then
        Inl (Panic ''runtime error: makeslice: len out of range'')
      else Inr \<lparr>Pix = replicate (nat n) 0, Stride = wrap64 (4 * Dx r), Bounds = r\<rparr>)"

text \<open>
  \<^verbatim>\<open>func (p *RGBA) Set(x, y int, c color.Color)\<close>: nothing happens outside the bounds;
  inside, the four channels are stored at the pixel's offset. Slicing \<open>Pix\<close> beyond its
  length panics.
\<close>

definition Set_px :: "RGBA \<Rightarrow> int \<Rightarrow> int \<Rightarrow> rgba \<Rightarrow> error + RGBA" where
  "Set_px p x y c =
     (if \<not> PointIn \<lparr>pX = x, pY = y\<rparr> (Bounds p) then Inr p
      else
        let i = PixOffset p x y in
        if i < 0 \<or> i + 4 > int (length (Pix p)) then
          Inl (Panic ''runtime error: slice bounds out of range'')
        else
          (case c of (r, g, b, a) \<Rightarrow>
             Inr (p\<lparr>Pix := (Pix p)[nat i := r, nat i + 1 := g, nat i + 2 := b, nat i + 3 := a]\<rparr>)))"

text \<open>
  \<^verbatim>\<open>func (p *RGBA) SubImage(r Rectangle) image.Image\<close>: the view on the part of \<open>r\<close> that
  lies inside the image; the empty image \<^verbatim>\<open>&RGBA{}\<close> when there is none.
\<close>

definition SubImage :: "RGBA \<Rightarrow> Rectangle \<Rightarrow> error + RGBA" where
  "SubImage p r =
     (let r' = Intersect r (Bounds p) in
      if Empty r' then Inr \<lparr>Pix = [], Stride = 0, Bounds = ZR\<rparr>
      else
        let i = PixOffset p (pX (rMin r')) (pY (rMin r')) in
        if i < 0 \<or> i > int (length (Pix p)) then
          Inl (Panic ''runtime error: slice bounds out of range'')
        else Inr \<lparr>Pix = drop (nat i) (Pix p), Stride = Stride p, Bounds = r'\<rparr>)"

section \<open>The rendering context (package render, context.go)\<close>

text \<open>
  \<^verbatim>\<open>color.Color\<close> values: \<^verbatim>\<open>color.Gray16\<close>, \<^verbatim>\<open>color.RGBA\<close>, or any other implementation of
  the interface. The \<^verbatim>\<open>nil\<close> interface value is \<open>None\<close> of \<open>Color option\<close>.
\<close>

datatype Color =
    color_Gray16 "16 word"
  | color_RGBA byte byte byte byte
  | color_Custom nat

definition color_Black :: Color where "color_Black = color_Gray16 0"
definition color_White :: Color where "color_White = color_Gray16 0xffff"

text \<open>
  The table from brush type to sprite name. A Go map read with a missing key gives the
  zero value, the empty string.
\<close>

definition brushNames :: "BrushType \<rightharpoonup> string" where
  "brushNames =
     [lines_Ballpoint \<mapsto> ''ballpoint'',
      lines_BallpointV5 \<mapsto> ''ballpoint'',
      lines_Pencil \<mapsto> ''pencil'',
      lines_PencilV5 \<mapsto> ''pencil'',
      lines_MechanicalPencil \<mapsto> ''mech-pencil'',
      lines_MechanicalPencilV5 \<mapsto> ''mech-pencil'',
      lines_Marker \<mapsto> ''marker'',
      lines_MarkerV5 \<mapsto> ''marker'',
      lines_Fineliner \<mapsto> ''fineliner'',
      lines_FinelinerV5 \<mapsto> ''fineliner'',
      lines_Highlighter \<mapsto> ''highlighter'',
      lines_HighlighterV5 \<mapsto> ''highlighter'',
      lines_PaintBrush \<mapsto> ''ballpoint'',
      lines_PaintBrushV5 \<mapsto> ''ballpoint'',
      lines_CalligraphyV5 \<mapsto> ''ballpoint'']"

definition brushName :: "BrushType \<Rightarrow> string" where
  "brushName bt = (case brushNames bt of None \<Rightarrow> [] | Some name \<Rightarrow> name)"

definition defaultColors :: "BrushColor \<rightharpoonup> Color" where
  "defaultColors =
     [lines_Black \<mapsto> color_Black,
      lines_Gray \<mapsto> color_RGBA 150 150 150 255,
      lines_White \<mapsto> color_White]"

text \<open>
  \<^verbatim>\<open>Palette\<close>. A Go map can hold the \<^verbatim>\<open>nil\<close> interface as a value, so an entry of
  \<open>pal_colors\<close> is \<open>Some None\<close> for a key mapped to \<^verbatim>\<open>nil\<close> and \<open>None\<close> for a missing key.
\<close>

record Palette =
  pal_Background :: "Color option"
  pal_Highlighter :: "Color option"
  pal_colors :: "BrushColor \<rightharpoonup> Color option"

definition NewPalette ::
  "Color option \<Rightarrow> Color option \<Rightarrow> (BrushColor \<rightharpoonup> Color option) \<Rightarrow> Palette" where
  "NewPalette bg highlighter brushColors =
     \<lparr>pal_Background = bg, pal_Highlighter = highlighter, pal_colors = brushColors\<rparr>"

text \<open>\<^verbatim>\<open>func (p *Palette) Color(bc lines.BrushColor) color.Color\<close>.\<close>

definition Palette_Color :: "Palette \<Rightarrow> BrushColor \<Rightarrow> Color option" where
  "Palette_Color p bc = (case pal_colors p bc of Some c \<Rightarrow> c | None \<Rightarrow> defaultColors bc)"

text \<open>
  \<^verbatim>\<open>Context\<close>. \<open>sprites\<close> is \<open>None\<close> until the sprite sheet is loaded. Reading a \<^verbatim>\<open>nil\<close>
  map gives the zero value like reading an empty one, and a key mapped to a \<^verbatim>\<open>nil\<close>
  slice reads like a missing key, so \<open>spriteIndex\<close> and \<open>tplCache\<close> are partial maps.
  The two mutexes have no part in a sequential run. Receivers and arguments of pointer
  type are taken to be non-nil.
\<close>

record Context =
  DataDir :: string
  palette :: Palette
  sprites :: "RGBA option"
  spriteIndex :: "string \<rightharpoonup> int list"
  tplCache :: "string \<rightharpoonup> Image"

definition NewContext :: "string \<Rightarrow> Palette \<Rightarrow> Context" where
  "NewContext dataDir p =
     \<lparr>DataDir = dataDir, palette = p, sprites = None, spriteIndex = Map.empty,
      tplCache = Map.empty\<rparr>"

definition DefaultContext :: Context where
  "DefaultContext =
     NewContext ''./data''
       (NewPalette (Some color_White) (Some (color_RGBA 150 150 150 255))
          (\<lambda>bc. map_option Some (defaultColors bc)))"

text \<open>
  What the context reads from outside: \<open>fs_Open\<close> is \<^verbatim>\<open>os.Open\<close> on the joined path
  elements (the file's bytes, or the error's message), \<open>json_Decode\<close> is the JSON decoder
  writing into the sprite index it is given (the index after the call, and the error's
  message when it fails), \<open>png_Decode\<close> is \<^verbatim>\<open>png.Decode\<close>.
\<close>

record Env =
  fs_Open :: "string list \<Rightarrow> string + byte list"
  json_Decode :: "byte list \<Rightarrow> (string \<rightharpoonup> int list) \<Rightarrow> string option \<times> (string \<rightharpoonup> int list)"
  png_Decode :: "byte list \<Rightarrow> string + Image"

definition readPNG :: "Env \<Rightarrow> string list \<Rightarrow> error + Image" where
  "readPNG env path =
     (case fs_Open env path of
        Inl msg \<Rightarrow> Inl (IOError msg)
      | Inr f \<Rightarrow>
          (case png_Decode env f of Inl msg \<Rightarrow> Inl (IOError msg) | Inr img \<Rightarrow> Inr img))"

text \<open>
  The two nested loops of \<^verbatim>\<open>lazyLoadSpritesheet\<close> that copy the decoded picture into the
  RGBA image: \<open>x\<close> runs over \<open>0 ..< Dx\<close>, and for each \<open>x\<close>, \<open>y\<close> over \<open>0 ..< Dy\<close>.
\<close>

fun copyColumn :: "Image \<Rightarrow> int \<Rightarrow> nat list \<Rightarrow> RGBA \<Rightarrow> error option \<times> RGBA" where
  "copyColumn img x [] p = (None, p)"
| "copyColumn img x (y # ys) p =
     (case Set_px p x (int y) (img_At img x (int y)) of
        Inl e \<Rightarrow> (Some e, p)
      | Inr p' \<Rightarrow> copyColumn img x ys p')"

fun copyPixels :: "Image \<Rightarrow> nat list \<Rightarrow> RGBA \<Rightarrow> error option \<times> RGBA" where
  "copyPixels img [] p = (None, p)"
| "copyPixels img (x # xs) p =
     (case copyColumn img (int x) [0 ..< nat (Dy (Bounds p))] p of
        (Some e, p') \<Rightarrow> (Some e, p')
      | (None, p') \<Rightarrow> copyPixels img xs p')"

definition lazyLoadSpritesheet :: "Env \<Rightarrow> Context \<Rightarrow> error option \<times> Context" where
  "lazyLoadSpritesheet env c =
     (case sprites c of
        Some _ \<Rightarrow> (None, c)
      | None \<Rightarrow>
          (case fs_Open env [DataDir c, ''sprites.json''] of
             Inl msg \<Rightarrow> (Some (IOError msg), c)
           | Inr jsonFile \<Rightarrow>
               (case json_Decode env jsonFile (spriteIndex c) of
                  (Some msg, idx) \<Rightarrow> (Some (IOError msg), c\<lparr>spriteIndex := idx\<rparr>)
                | (None, idx) \<Rightarrow>
                    (let c1 = c\<lparr>spriteIndex := idx\<rparr> in
                     case readPNG env [DataDir c, ''sprites.png''] of
                       Inl e \<Rightarrow> (Some e, c1)
                     | Inr img \<Rightarrow>
                         (case NewRGBA (img_Bounds img) of
                            Inl e \<Rightarrow> (Some e, c1)
                          | Inr p0 \<Rightarrow>
                              (case copyPixels img [0 ..< nat (Dx (Bounds p0))] p0 of
                                 (err, p) \<Rightarrow> (err, c1\<lparr>sprites := Some p\<rparr>)))))))"

text \<open>\<^verbatim>\<open>func (c *Context) loadBrushMask(name string) (image.Image, error)\<close>.\<close>

definition loadBrushMask :: "Env \<Rightarrow> Context \<Rightarrow> string \<Rightarrow> (error + RGBA) \<times> Context" where
  "loadBrushMask env c name =
     (case lazyLoadSpritesheet env c of
        (Some e, c') \<Rightarrow> (Inl e, c')
      | (None, c') \<Rightarrow>
          (case spriteIndex c' name of
             None \<Rightarrow> (Inl (NoSpriteImage name), c')
           | Some idx \<Rightarrow>
               if length idx \<noteq> 4 then (Inl (InvalidSpriteEntry name), c')
               else
                 (let rect = Rect (idx ! 0) (idx ! 1) (idx ! 2) (idx ! 3) in
                  case sprites c' of
                    None \<Rightarrow> (Inl (Panic ''invalid memory address or nil pointer dereference''), c')
                  | Some sheet \<Rightarrow>
                      if Dx rect > Dx (Bounds sheet) \<or> Dy rect > Dy (Bounds sheet) then
                        (Inl SpriteBoundsNotWithin, c')
                      else (SubImage sheet rect, c'))))"


subsection \<open>Brushes\<close>

text \<open>
  \<^verbatim>\<open>image.NewUniform(c)\<close> is the infinite image of the single colour \<open>c\<close>.

  Modelled from the spec: \<^verbatim>\<open>imaging.CreateMask\<close>, \<^verbatim>\<open>loadBasePen\<close> and the brush structs
  are not among the sources. A mask is what \<^verbatim>\<open>CreateMask\<close> makes of the sprite's view; a
  brush is one of the variants of the spec's table with the fields \<^verbatim>\<open>loadBrush\<close> fills
  in; the base pen is the spec's generic fixed-width, fixed-opacity fallback, built
  from the mask and the colour.
\<close>

datatype Uniform = NewUniform "Color option"

datatype Mask = CreateMask RGBA

datatype Brush =
    Ballpoint Mask Uniform "Color option"
  | Pencil Mask Uniform
  | MechanicalPencil Mask Uniform
  | Marker Mask Uniform
  | Fineliner Mask Uniform "Color option"
  | Highlighter Mask Uniform
  | Paintbrush Uniform
  | BasePen Mask "Color option"

definition loadBasePen :: "Mask \<Rightarrow> Color option \<Rightarrow> Brush" where
  "loadBasePen m col = BasePen m col"

text \<open>The \<^verbatim>\<open>fill\<close> field of a brush; the base pen keeps its colour only.\<close>

fun fill :: "Brush \<Rightarrow> Uniform option" where
  "fill (Ballpoint m f c) = Some f"
| "fill (Pencil m f) = Some f"
| "fill (MechanicalPencil m f) = Some f"
| "fill (Marker m f) = Some f"
| "fill (Fineliner m f c) = Some f"
| "fill (Highlighter m f) = Some f"
| "fill (Paintbrush f) = Some f"
| "fill (BasePen m c) = None"

text \<open>
  \<^verbatim>\<open>func (c *Context) loadBrush(bt lines.BrushType, bc lines.BrushColor) (Brush, error)\<close>.
  The context comes back with whatever \<^verbatim>\<open>lazyLoadSpritesheet\<close> has stored in it. The
  warning of the \<^verbatim>\<open>default\<close> case goes to the logger and is not part of the result.
\<close>

definition loadBrush ::
  "Env \<Rightarrow> Context \<Rightarrow> BrushType \<Rightarrow> BrushColor \<Rightarrow> (error + Brush) \<times> Context" where
  "loadBrush env c bt bc =
     (case Palette_Color (palette c) bc of
        None \<Rightarrow> (Inl (InvalidColor bc), c)
      | Some col' \<Rightarrow>
          (let col = Some col'; name = brushName bt in
           if name = [] then (Inl (UnsupportedBrushType bt), c)
           else
             (case loadBrushMask env c name of
                (Inl err, c') \<Rightarrow> (Inl err, c')
              | (Inr img, c') \<Rightarrow>
                  (let mask' = CreateMask img in
                   (Inr (case bt of
                           lines_Ballpoint \<Rightarrow> Ballpoint mask' (NewUniform col) col
                         | lines_BallpointV5 \<Rightarrow> Ballpoint mask' (NewUniform col) col
                         | lines_Pencil \<Rightarrow> Pencil mask' (NewUniform col)
                         | lines_PencilV5 \<Rightarrow> Pencil mask' (NewUniform col)
                         | lines_MechanicalPencil \<Rightarrow> MechanicalPencil mask' (NewUniform col)
                         | lines_MechanicalPencilV5 \<Rightarrow> MechanicalPencil mask' (NewUniform col)
                         | lines_Marker \<Rightarrow> Marker mask' (NewUniform col)
                         | lines_MarkerV5 \<Rightarrow> Marker mask' (NewUniform col)
                         | lines_Fineliner \<Rightarrow> Fineliner mask' (NewUniform col) col
                         | lines_FinelinerV5 \<Rightarrow> Fineliner mask' (NewUniform col) col
                         | lines_Highlighter \<Rightarrow>
                             Highlighter mask' (NewUniform (pal_Highlighter (palette c)))
                         | lines_HighlighterV5 \<Rightarrow>
                             Highlighter mask' (NewUniform (pal_Highlighter (palette c)))
                         | lines_PaintBrush \<Rightarrow> Paintbrush (NewUniform col)
                         | lines_PaintBrushV5 \<Rightarrow> Paintbrush (NewUniform col)
                         | _ \<Rightarrow> loadBasePen mask' col),
                    c')))))"

text \<open>\<^verbatim>\<open>func (c *Context) loadTemplate(name string) (image.Image, error)\<close>.\<close>

definition loadTemplate :: "Env \<Rightarrow> Context \<Rightarrow> string \<Rightarrow> (error + Image) \<times> Context" where
  "loadTemplate env c name =
     (case tplCache c name of
        Some cached \<Rightarrow> (Inr cached, c)
      | None \<Rightarrow>
          (case readPNG env [DataDir c, ''templates'', name @ ''.png''] of
             Inl err \<Rightarrow> (Inl err, c)
           | Inr img \<Rightarrow> (Inr img, c\<lparr>tplCache := (tplCache c)(name \<mapsto> img)\<rparr>)))"

section \<open>PDF assembly (package render, pdf.go)\<close>

text \<open>
  Modelled from the spec: \<^verbatim>\<open>rmtool.Document\<close> is not among the sources. The spec gives it
  as a capability exposing the file kind, the ordered page IDs, a page-to-drawing lookup
  that fails for unknown IDs, the display name, the timestamp and the version; a
  document is the record of what these methods return. The drawing type \<open>'d\<close> is left
  open: the code here passes drawings on and never looks inside.
\<close>

record 'd Document =
  doc_ID :: string
  doc_FileType :: FileType
  doc_Pages :: "string list"
  doc_Drawing :: "string \<Rightarrow> error + 'd"
  doc_Name :: string
  doc_LastModified :: int
  doc_Version :: int

text \<open>
  The \<^verbatim>\<open>gofpdf\<close> document under construction, as the page size and metadata given at
  set-up and the sequence of content operations made on it since. The geometry of an
  image placement (floating point) is not recorded.
\<close>

datatype PdfOp =
    AddPage
  | RegisterImageOptionsReader string "byte list"
  | ImageOptions string

record Fpdf =
  pdf_pageSize :: string
  pdf_meta :: "(string \<times> int \<times> int) option"
  pdf_ops :: "PdfOp list"

definition defaultPageSize :: string where "defaultPageSize = ''A4''"

text \<open>
  What pdf.go calls and the sources do not hold: the page renderer \<^verbatim>\<open>renderPNG\<close>, the
  overlay of a source PDF \<^verbatim>\<open>overlayPdf\<close>, the library's \<^verbatim>\<open>pdf.Output(w)\<close> (from the bytes
  the writer holds to the bytes it holds afterwards) and \<^verbatim>\<open>uuid.New()\<close>.
\<close>

record 'd Deps =
  renderPNG :: "Context \<Rightarrow> 'd \<Rightarrow> bool \<Rightarrow> (error + byte list) \<times> Context"
  overlayPdf :: "Context \<Rightarrow> 'd Document \<Rightarrow> Fpdf \<Rightarrow> error option \<times> Fpdf \<times> Context"
  pdf_Output :: "Fpdf \<Rightarrow> byte list \<Rightarrow> error option \<times> byte list"
  uuid_New :: "Fpdf \<Rightarrow> string"

definition setupPdf :: "string \<Rightarrow> 'd Document option \<Rightarrow> Fpdf" where
  "setupPdf pageSize d =
     \<lparr>pdf_pageSize = pageSize,
      pdf_meta = (case d of None \<Rightarrow> None
                  | Some doc \<Rightarrow> Some (doc_Name doc, doc_LastModified doc, doc_Version doc)),
      pdf_ops = []\<rparr>"

definition drawingToPdf ::
  "'d Deps \<Rightarrow> Context \<Rightarrow> Fpdf \<Rightarrow> 'd \<Rightarrow> error option \<times> Fpdf \<times> Context" where
  "drawingToPdf deps c pdf d =
     (let imgId = uuid_New deps pdf in
      case renderPNG deps c d False of
        (Inl err, c') \<Rightarrow> (Some err, pdf, c')
      | (Inr buf, c') \<Rightarrow>
          (None,
           pdf\<lparr>pdf_ops := pdf_ops pdf @ [RegisterImageOptionsReader imgId buf, ImageOptions imgId]\<rparr>,
           c'))"

definition doRenderPdfPage ::
  "'d Deps \<Rightarrow> Context \<Rightarrow> Fpdf \<Rightarrow> 'd Document \<Rightarrow> string \<Rightarrow> nat \<Rightarrow>
     error option \<times> Fpdf \<times> Context" where
  "doRenderPdfPage deps c pdf doc pageID i =
     (case doc_Drawing doc pageID of
        Inl err \<Rightarrow> (Some err, pdf, c)
      | Inr d \<Rightarrow> drawingToPdf deps c (pdf\<lparr>pdf_ops := pdf_ops pdf @ [AddPage]\<rparr>) d)"

text \<open>The loop of \<^verbatim>\<open>drawingsPdf\<close> over the remaining pages, \<open>i\<close> the index of the next.\<close>

fun drawingsPdf_loop ::
  "'d Deps \<Rightarrow> Context \<Rightarrow> Fpdf \<Rightarrow> 'd Document \<Rightarrow> nat \<Rightarrow> string list \<Rightarrow>
     error option \<times> Fpdf \<times> Context" where
  "drawingsPdf_loop deps c pdf d i [] = (None, pdf, c)"
| "drawingsPdf_loop deps c pdf d i (pageID # rest) =
     (case doRenderPdfPage deps c pdf d pageID i of
        (Some err, pdf', c') \<Rightarrow> (Some err, pdf', c')
      | (None, pdf', c') \<Rightarrow> drawingsPdf_loop deps c' pdf' d (Suc i) rest)"

definition drawingsPdf ::
  "'d Deps \<Rightarrow> Context \<Rightarrow> Fpdf \<Rightarrow> 'd Document \<Rightarrow> error option \<times> Fpdf \<times> Context" where
  "drawingsPdf deps c pdf d = drawingsPdf_loop deps c pdf d 0 (doc_Pages d)"

text \<open>
  \<^verbatim>\<open>renderPdf(c, d, w)\<close>: the error, the context afterwards and the bytes the writer
  holds afterwards.
\<close>

definition renderPdf ::
  "'d Deps \<Rightarrow> Context \<Rightarrow> 'd Document \<Rightarrow> byte list \<Rightarrow> error option \<times> Context \<times> byte list" where
  "renderPdf deps c d w =
     (if doc_FileType d = Epub then (Some (RenderPdfNotSupported (doc_FileType d)), c, w)
      else
        (let pdf = setupPdf defaultPageSize (Some d) in
         case (if doc_FileType d = Pdf then overlayPdf deps c d pdf
               else drawingsPdf deps c pdf d) of
           (Some err, pdf', c') \<Rightarrow> (Some err, c', w)
         | (None, pdf', c') \<Rightarrow>
             (case pdf_Output deps pdf' w of (res, w') \<Rightarrow> (res, c', w'))))"

text \<open>\<^verbatim>\<open>PdfPage(c, d, pageID, w)\<close> renders a single drawing into a one-page PDF.\<close>

definition PdfPage ::
  "'d Deps \<Rightarrow> Context \<Rightarrow> 'd Document \<Rightarrow> string \<Rightarrow> byte list \<Rightarrow>
     error option \<times> Context \<times> byte list" where
  "PdfPage deps c d pageID w =
     (let pdf = setupPdf defaultPageSize (None :: 'd Document option) in
      case doRenderPdfPage deps c pdf d pageID 0 of
        (Some err, pdf', c') \<Rightarrow> (Some err, c', w)
      | (None, pdf', c') \<Rightarrow>
          (case pdf_Output deps pdf' w of (res, w') \<Rightarrow> (res, c', w')))"

text \<open>\<^verbatim>\<open>func (c *Context) Pdf(doc, w)\<close> and the package-level \<^verbatim>\<open>Pdf(d, w)\<close>.\<close>

definition Context_Pdf ::
  "'d Deps \<Rightarrow> Context \<Rightarrow> 'd Document \<Rightarrow> byte list \<Rightarrow> error option \<times> Context \<times> byte list" where
  "Context_Pdf deps c doc w = renderPdf deps c doc w"

definition render_Pdf ::
  "'d Deps \<Rightarrow> 'd Document \<Rightarrow> byte list \<Rightarrow> error option \<times> Context \<times> byte list" where
  "render_Pdf deps d w = renderPdf deps DefaultContext d w"


section \<open>Example inputs\<close>

text \<open>
  A data directory with a sprite sheet of two by two opaque black pixels and an index of
  five sprites: the pencil's reaches beyond the sheet, the marker's is wider than the
  sheet, and the fineliner's spans the whole range of an \<^verbatim>\<open>int\<close>, so that its width does not
  fit one. A palette without an entry for black. A context before and after the sprite
  sheet is loaded. A notebook of two pages whose second page has no drawing.
\<close>

definition example_png :: Image where
  "example_png = \<lparr>img_Bounds = Rect 0 0 2 2, img_At = (\<lambda>x y. (0, 0, 0, 255))\<rparr>"

definition example_index :: "string \<rightharpoonup> int list" where
  "example_index =
     [''ballpoint'' \<mapsto> [0, 0, 1, 1], ''highlighter'' \<mapsto> [1, 0, 2, 1],
      ''pencil'' \<mapsto> [1, 1, 3, 3], ''marker'' \<mapsto> [0, 0, 3, 1],
      ''fineliner'' \<mapsto> [- 9223372036854775808, 0, 9223372036854775807, 1]]"

definition example_env :: Env where
  "example_env =
     \<lparr>fs_Open = (\<lambda>path. Inr []),
      json_Decode = (\<lambda>bytes idx. (None, idx ++ example_index)),
      png_Decode = (\<lambda>bytes. Inr example_png)\<rparr>"

definition example_palette :: Palette where
  "example_palette =
     NewPalette (Some color_White) (Some (color_RGBA 255 255 0 255))
       [lines_Gray \<mapsto> Some (color_RGBA 1 2 3 255)]"

definition example_context :: Context where
  "example_context = NewContext ''data'' example_palette"

definition example_sheet :: RGBA where
  "example_sheet =
     \<lparr>Pix = [0, 0, 0, 255, 0, 0, 0, 255, 0, 0, 0, 255, 0, 0, 0, 255],
      Stride = 8, Bounds = Rect 0 0 2 2\<rparr>"

definition example_loaded :: Context where
  "example_loaded =
     example_context\<lparr>sprites := Some example_sheet, spriteIndex := example_index\<rparr>"

definition example_deps :: "nat Deps" where
  "example_deps =
     \<lparr>renderPNG = (\<lambda>c d transparent. (Inr [of_nat d], c)),
      overlayPdf = (\<lambda>c d pdf. (Some (IOError ''no source PDF''), pdf, c)),
      pdf_Output = (\<lambda>pdf w. (None, w @ concat (map (\<lambda>op. case op of
                       RegisterImageOptionsReader n png \<Rightarrow> png | _ \<Rightarrow> []) (pdf_ops pdf)))),
      uuid_New = (\<lambda>pdf. ''img'')\<rparr>"

definition example_doc :: "nat Document" where
  "example_doc =
     \<lparr>doc_ID = ''doc'', doc_FileType = Notebook, doc_Pages = [''p1'', ''p2''],
      doc_Drawing = (\<lambda>pageID. if pageID = ''p1'' then Inr 7 else Inl (IOError ''no such page'')),
      doc_Name = ''Notes'', doc_LastModified = 0, doc_Version = 1\<rparr>"

definition example_pdf1 :: Fpdf where
  "example_pdf1 =
     \<lparr>pdf_pageSize = ''A4'', pdf_meta = Some (''Notes'', 0, 1),
      pdf_ops = [AddPage, RegisterImageOptionsReader ''img'' [7], ImageOptions ''img'']\<rparr>"

section \<open>Properties\<close>

lemmas enum_defs =
  Portrait_def Landscape_def Notebook_def Epub_def Pdf_def
  AlignLeft_def AlignJustify_def defaultCoverPage_def

subsection \<open>Validation of the content metadata\<close>

text \<open>
  C4. \<^verbatim>\<open>Content.Validate\<close> returns a validation error whenever \<open>PageCount\<close> differs from
  the number of page IDs, and whenever the cover page number is neither the sentinel
  \<open>-1\<close> nor the number of an existing page; pages are numbered from one, as the check in
  the code counts them. In particular a content with cover page 5 and page count 3
  fails, whatever its other fields. It returns no error exactly for a content with a
  valid file type, orientation and text alignment, a matching page count and a cover
  page that is unset or in range.
\<close>

theorem Validate_spec:
  fixes c :: "'a Content_scheme"
  shows
    "(PageCount c \<noteq> int (length (Pages c)) \<longrightarrow> (\<exists>e. Validate c = Some e)) \<and>
     (CoverPageNumber c \<noteq> defaultCoverPage \<and>
        \<not> (1 \<le> CoverPageNumber c \<and> CoverPageNumber c \<le> int (length (Pages c))) \<longrightarrow>
        (\<exists>e. Validate c = Some e)) \<and>
     (CoverPageNumber c = 5 \<and> PageCount c = 3 \<longrightarrow> (\<exists>e. Validate c = Some e)) \<and>
     (Validate c = None \<longleftrightarrow>
        FileType c \<in> {Notebook, Pdf, Epub} \<and>
        Orientation c \<in> {Portrait, Landscape} \<and>
        TextAlignment c \<in> {AlignLeft, AlignJustify} \<and>
        PageCount c = int (length (Pages c)) \<and>
        (CoverPageNumber c = defaultCoverPage \<or>
         1 \<le> CoverPageNumber c \<and> CoverPageNumber c \<le> PageCount c))"
  by (auto simp: Validate_def enum_defs)

theorem Validate_spec_witness:
  "Validate ((NewContent Notebook)\<lparr>PageCount := 3, Pages := [''a'', ''b'']\<rparr>) =
     Some (PageCountMismatch 3 2) \<and>
   Validate ((NewContent Pdf)\<lparr>PageCount := 3, Pages := [''a'', ''b'', ''c''],
       CoverPageNumber := 5\<rparr>) = Some (CoverPageNotExisting 5) \<and>
   Validate ((NewContent Epub)\<lparr>PageCount := 3, Pages := [''a'', ''b'', ''c''],
       CoverPageNumber := 3\<rparr>) = None \<and>
   Validate (NewContent Notebook) = None"
  using Validate_spec [of "(NewContent Notebook)\<lparr>PageCount := 3, Pages := [''a'', ''b'']\<rparr>"]
    Validate_spec [of "(NewContent Pdf)\<lparr>PageCount := 3, Pages := [''a'', ''b'', ''c''],
       CoverPageNumber := 5\<rparr>"]
    Validate_spec [of "(NewContent Epub)\<lparr>PageCount := 3, Pages := [''a'', ''b'', ''c''],
       CoverPageNumber := 3\<rparr>"]
    Validate_spec [of "NewContent Notebook"]
  by (simp add: Validate_def NewContent_def enum_defs)

subsection \<open>The example inputs, evaluated\<close>

lemma example_load: "lazyLoadSpritesheet example_env example_context = (None, example_loaded)"
  by (simp add: lazyLoadSpritesheet_def example_env_def example_context_def NewContext_def
    readPNG_def example_png_def NewRGBA_def mul3NonNeg_def maxAlloc_def Dx_def Dy_def Rect_def
    wrap64_def Set_px_def PointIn_def PixOffset_def example_loaded_def example_sheet_def upt_rec
    eval_nat_numeral)

lemma example_mask_pencil:
  "loadBrushMask example_env example_context ''pencil'' =
     (Inr \<lparr>Pix = [0, 0, 0, 255], Stride = 8, Bounds = Rect 1 1 2 2\<rparr>, example_loaded)"
  by (simp add: loadBrushMask_def example_load)
     (simp add: example_loaded_def example_index_def example_sheet_def SubImage_def
        Intersect_def Empty_def Rect_def Dx_def Dy_def wrap64_def PixOffset_def Let_def)

lemma example_mask_ballpoint:
  "loadBrushMask example_env example_context ''ballpoint'' =
     (Inr \<lparr>Pix = Pix example_sheet, Stride = 8, Bounds = Rect 0 0 1 1\<rparr>, example_loaded)"
  by (simp add: loadBrushMask_def example_load)
     (simp add: example_loaded_def example_index_def example_sheet_def SubImage_def
        Intersect_def Empty_def Rect_def Dx_def Dy_def wrap64_def PixOffset_def Let_def)

lemma example_mask_highlighter:
  "loadBrushMask example_env example_context ''highlighter'' =
     (Inr \<lparr>Pix = drop 4 (Pix example_sheet), Stride = 8, Bounds = Rect 1 0 2 1\<rparr>, example_loaded)"
  by (simp add: loadBrushMask_def example_load)
     (simp add: example_loaded_def example_index_def example_sheet_def SubImage_def
        Intersect_def Empty_def Rect_def Dx_def Dy_def wrap64_def PixOffset_def Let_def)

subsection \<open>Errors and effects of loading the sprite sheet\<close>

text \<open>Errors of the copy loops are panics.\<close>

lemma Set_px_panic: "Set_px p x y v = Inl e \<Longrightarrow> \<exists>m. e = Panic m"
  by (auto simp: Set_px_def Let_def split: if_splits prod.splits)

lemma copyColumn_panic: "copyColumn img x ys p = (Some e, p') \<Longrightarrow> \<exists>m. e = Panic m"
  by (induction ys arbitrary: p) (auto split: sum.splits dest: Set_px_panic)

lemma copyPixels_panic: "copyPixels img xs p = (Some e, p') \<Longrightarrow> \<exists>m. e = Panic m"
  by (induction xs arbitrary: p) (auto split: prod.splits option.splits dest: copyColumn_panic)

lemma NewRGBA_panic: "NewRGBA r = Inl e \<Longrightarrow> \<exists>m. e = Panic m"
  by (auto simp: NewRGBA_def Let_def split: if_splits)

lemma readPNG_error: "readPNG env path = Inl e \<Longrightarrow> \<exists>m. e = IOError m"
  by (auto simp: readPNG_def split: sum.splits)

lemma lazyLoadSpritesheet_error:
  "lazyLoadSpritesheet env c = (Some e, c') \<Longrightarrow> (\<exists>m. e = Panic m) \<or> (\<exists>m. e = IOError m)"
  by (auto simp: lazyLoadSpritesheet_def Let_def
      split: option.splits sum.splits prod.splits
      dest: copyPixels_panic NewRGBA_panic readPNG_error)

lemma lazyLoadSpritesheet_palette:
  "palette (snd (lazyLoadSpritesheet env c)) = palette c"
  by (auto simp: lazyLoadSpritesheet_def Let_def split: option.splits sum.splits prod.splits)

lemma SubImage_panic: "SubImage p r = Inl e \<Longrightarrow> \<exists>m. e = Panic m"
  by (auto simp: SubImage_def Let_def split: if_splits)

lemma loadBrushMask_error:
  "loadBrushMask env c name = (Inl e, c') \<Longrightarrow> \<forall>bc. e \<noteq> InvalidColor bc"
  by (auto simp: loadBrushMask_def Let_def
      split: option.splits sum.splits prod.splits if_splits
      dest: lazyLoadSpritesheet_error SubImage_panic)

lemma loadBrushMask_palette: "palette (snd (loadBrushMask env c name)) = palette c"
  using lazyLoadSpritesheet_palette [of env c]
  by (auto simp: loadBrushMask_def Let_def split: option.splits sum.splits prod.splits if_splits)

lemma loadBrush_palette: "palette (snd (loadBrush env c bt bc)) = palette c"
  using loadBrushMask_palette [of env c "brushName bt"]
  by (auto simp: loadBrush_def Let_def split: option.splits sum.splits prod.splits)

subsection \<open>The palette\<close>

text \<open>
  C10. Entries of the caller's mapping take precedence over the built-in defaults: for
  a colour identifier present in the caller's mapping (black, gray and white included)
  \<^verbatim>\<open>Palette.Color\<close> returns the caller's value, and the built-in default is consulted only
  when the key is absent from it.
\<close>

theorem Palette_Color_precedence:
  "(pal_colors p bc = Some v \<longrightarrow> Palette_Color p bc = v) \<and>
   (pal_colors p bc = None \<longrightarrow> Palette_Color p bc = defaultColors bc)"
  by (simp add: Palette_Color_def)

theorem Palette_Color_precedence_witness:
  "Palette_Color example_palette lines_Gray = Some (color_RGBA 1 2 3 255) \<and>
   Palette_Color example_palette lines_Black = Some color_Black"
  using Palette_Color_precedence [of example_palette lines_Gray "Some (color_RGBA 1 2 3 255)"]
    Palette_Color_precedence [of example_palette lines_Black]
  by (simp add: example_palette_def NewPalette_def defaultColors_def)

text \<open>
  C3. When a colour identifier is absent from the caller's mapping: for each of the
  built-in defaults (black, gray, white) \<^verbatim>\<open>Palette.Color\<close> returns a colour that is not
  \<^verbatim>\<open>nil\<close>, and \<^verbatim>\<open>loadBrush\<close> does not fail with an invalid-colour error; for every other
  identifier \<^verbatim>\<open>Palette.Color\<close> returns \<^verbatim>\<open>nil\<close> and \<^verbatim>\<open>loadBrush\<close> fails with the
  invalid-colour error, leaving the context as it was.
\<close>

theorem color_resolution:
  assumes "pal_colors (palette c) bc = None"
  shows
    "(bc \<in> {lines_Black, lines_Gray, lines_White} \<longrightarrow>
        (\<exists>col. Palette_Color (palette c) bc = Some col) \<and>
        (\<forall>bc'. fst (loadBrush env c bt bc) \<noteq> Inl (InvalidColor bc'))) \<and>
     (bc \<notin> {lines_Black, lines_Gray, lines_White} \<longrightarrow>
        Palette_Color (palette c) bc = None \<and>
        loadBrush env c bt bc = (Inl (InvalidColor bc), c))"
proof (intro conjI impI)
  assume d: "bc \<in> {lines_Black, lines_Gray, lines_White}"
  with assms show r: "\<exists>col. Palette_Color (palette c) bc = Some col"
    by (auto simp: Palette_Color_def defaultColors_def)
  then obtain col where col: "Palette_Color (palette c) bc = Some col" ..
  show "\<forall>bc'. fst (loadBrush env c bt bc) \<noteq> Inl (InvalidColor bc')"
  proof
    fix bc'
    show "fst (loadBrush env c bt bc) \<noteq> Inl (InvalidColor bc')"
      using loadBrushMask_error [of env c "brushName bt"]
      by (auto simp: loadBrush_def col Let_def split: prod.splits sum.splits)
  qed
next
  assume "bc \<notin> {lines_Black, lines_Gray, lines_White}"
  then have "defaultColors bc = None"
    by (cases bc) (auto simp: defaultColors_def)
  with assms show "Palette_Color (palette c) bc = None"
    by (simp add: Palette_Color_def)
  then show "loadBrush env c bt bc = (Inl (InvalidColor bc), c)"
    by (simp add: loadBrush_def)
qed

lemma example_palette_Black: "Palette_Color (palette example_context) lines_Black = Some color_Black"
  by (simp add: example_context_def NewContext_def example_palette_def NewPalette_def
      Palette_Color_def defaultColors_def)

lemma example_brush_ballpoint:
  "loadBrush example_env example_context lines_Ballpoint lines_Black =
     (Inr (Ballpoint (CreateMask \<lparr>Pix = Pix example_sheet, Stride = 8, Bounds = Rect 0 0 1 1\<rparr>)
        (NewUniform (Some color_Black)) (Some color_Black)), example_loaded)"
  by (simp add: loadBrush_def example_palette_Black brushName_def brushNames_def
      example_mask_ballpoint Let_def)

theorem color_resolution_witness:
  "pal_colors (palette example_context) lines_Black = None \<and>
   Palette_Color (palette example_context) lines_Black = Some color_Black \<and>
   loadBrush example_env example_context lines_Ballpoint lines_Black =
     (Inr (Ballpoint (CreateMask \<lparr>Pix = Pix example_sheet, Stride = 8, Bounds = Rect 0 0 1 1\<rparr>)
        (NewUniform (Some color_Black)) (Some color_Black)), example_loaded) \<and>
   pal_colors (palette example_context) (lines_OtherBrushColor 9) = None \<and>
   loadBrush example_env example_context lines_Ballpoint (lines_OtherBrushColor 9) =
     (Inl (InvalidColor (lines_OtherBrushColor 9)), example_context)"
proof -
  have a: "pal_colors (palette example_context) lines_Black = None"
    and b: "pal_colors (palette example_context) (lines_OtherBrushColor 9) = None"
    by (simp_all add: example_context_def NewContext_def example_palette_def NewPalette_def)
  show ?thesis
    using color_resolution [OF a, of example_env lines_Ballpoint]
      color_resolution [OF b, of example_env lines_Ballpoint] a b
    by (simp add: example_brush_ballpoint example_palette_Black)
qed

subsection \<open>Sprite rectangles\<close>

lemma Empty_ZR: "Empty ZR"
  by (simp add: Empty_def ZR_def)

lemma In_Intersect: "In (Intersect r s) s"
  by (auto simp: In_def Intersect_def Let_def Empty_def ZR_def)

lemma length4: "length xs = 4 \<Longrightarrow> xs = [xs ! 0, xs ! 1, xs ! 2, xs ! 3]"
  by (auto simp: eval_nat_numeral length_Suc_conv)

lemma SubImage_Bounds: "SubImage p r = Inr img \<Longrightarrow> Bounds img = Intersect r (Bounds p)"
  by (auto simp: SubImage_def Let_def Intersect_def Empty_ZR split: if_splits)

lemma wrap64_fits: "fits_int n \<Longrightarrow> wrap64 n = n"
  by (simp add: fits_int_def wrap64_def)

lemma Dx_plain: "fits_int (plain_width r) \<Longrightarrow> Dx r = plain_width r"
  by (simp add: Dx_def plain_width_def wrap64_fits)

lemma Dy_plain: "fits_int (plain_height r) \<Longrightarrow> Dy r = plain_height r"
  by (simp add: Dy_def plain_height_def wrap64_fits)

lemma loadBrushMask_success:
  assumes "loadBrushMask env c name = (Inr img, c')"
  shows "\<exists>sheet x0 y0 x1 y1.
           lazyLoadSpritesheet env c = (None, c') \<and>
           sprites c' = Some sheet \<and> spriteIndex c' name = Some [x0, y0, x1, y1] \<and>
           Dx (Rect x0 y0 x1 y1) \<le> Dx (Bounds sheet) \<and>
           Dy (Rect x0 y0 x1 y1) \<le> Dy (Bounds sheet) \<and>
           Bounds img = Intersect (Rect x0 y0 x1 y1) (Bounds sheet) \<and>
           In (Bounds img) (Bounds sheet)"
proof -
  from assms obtain idx sheet where
    load: "lazyLoadSpritesheet env c = (None, c')" and
    idx: "spriteIndex c' name = Some idx" "length idx = 4" and
    sheet: "sprites c' = Some sheet" and
    dims: "\<not> (Dx (Rect (idx ! 0) (idx ! 1) (idx ! 2) (idx ! 3)) > Dx (Bounds sheet) \<or>
             Dy (Rect (idx ! 0) (idx ! 1) (idx ! 2) (idx ! 3)) > Dy (Bounds sheet))" and
    sub: "SubImage sheet (Rect (idx ! 0) (idx ! 1) (idx ! 2) (idx ! 3)) = Inr img"
    by (auto simp: loadBrushMask_def Let_def split: option.splits prod.splits if_splits)
  from sub have b: "Bounds img = Intersect (Rect (idx ! 0) (idx ! 1) (idx ! 2) (idx ! 3)) (Bounds sheet)"
    by (rule SubImage_Bounds)
  have "In (Bounds img) (Bounds sheet)"
    unfolding b by (rule In_Intersect)
  with load idx(1) length4 [OF idx(2)] sheet dims b show ?thesis
    by (metis linorder_not_less)
qed

lemma loadBrushMask_too_large:
  assumes "lazyLoadSpritesheet env c = (None, c')"
    and "sprites c' = Some sheet" and "spriteIndex c' name = Some [x0, y0, x1, y1]"
    and "Dx (Rect x0 y0 x1 y1) > Dx (Bounds sheet) \<or> Dy (Rect x0 y0 x1 y1) > Dy (Bounds sheet)"
  shows "loadBrushMask env c name = (Inl SpriteBoundsNotWithin, c')"
  using assms by (auto simp: loadBrushMask_def Let_def)

text \<open>
  C2, as the code has it. \<^verbatim>\<open>loadBrushMask\<close> compares sizes, not positions, and it compares
  them as \<open>Dx\<close> and \<open>Dy\<close> compute them, in 64-bit arithmetic that wraps around. Whenever it
  succeeds, the entry has four integers, \<open>Dx\<close> and \<open>Dy\<close> of its rectangle are no more than
  those of the sprite sheet, and the image returned is the view on the intersection of
  that rectangle with the sheet's bounds, so the bounds of the returned image lie within
  the sheet's bounds. It fails with the sprite-bounds error when \<open>Dx\<close> or \<open>Dy\<close> of the
  rectangle is more than the sheet's. When the widths and heights of the rectangle and of
  the sheet fit an \<^verbatim>\<open>int\<close>, this is the plain comparison: a rectangle wider or taller than
  the sheet is rejected, and on success the rectangle is no wider and no taller than the
  sheet.
\<close>

theorem loadBrushMask_bounds:
  "(loadBrushMask env c name = (Inr img, c') \<longrightarrow>
      (\<exists>sheet x0 y0 x1 y1.
         lazyLoadSpritesheet env c = (None, c') \<and>
         sprites c' = Some sheet \<and> spriteIndex c' name = Some [x0, y0, x1, y1] \<and>
         Dx (Rect x0 y0 x1 y1) \<le> Dx (Bounds sheet) \<and>
         Dy (Rect x0 y0 x1 y1) \<le> Dy (Bounds sheet) \<and>
         Bounds img = Intersect (Rect x0 y0 x1 y1) (Bounds sheet) \<and>
         In (Bounds img) (Bounds sheet) \<and>
         (fits_int (plain_width (Rect x0 y0 x1 y1)) \<and> fits_int (plain_height (Rect x0 y0 x1 y1)) \<and>
          fits_int (plain_width (Bounds sheet)) \<and> fits_int (plain_height (Bounds sheet)) \<longrightarrow>
            plain_width (Rect x0 y0 x1 y1) \<le> plain_width (Bounds sheet) \<and>
            plain_height (Rect x0 y0 x1 y1) \<le> plain_height (Bounds sheet)))) \<and>
   (lazyLoadSpritesheet env c = (None, c') \<and>
    sprites c' = Some sheet \<and> spriteIndex c' name = Some [x0, y0, x1, y1] \<and>
    (Dx (Rect x0 y0 x1 y1) > Dx (Bounds sheet) \<or> Dy (Rect x0 y0 x1 y1) > Dy (Bounds sheet)) \<longrightarrow>
      loadBrushMask env c name = (Inl SpriteBoundsNotWithin, c')) \<and>
   (lazyLoadSpritesheet env c = (None, c') \<and>
    sprites c' = Some sheet \<and> spriteIndex c' name = Some [x0, y0, x1, y1] \<and>
    fits_int (plain_width (Rect x0 y0 x1 y1)) \<and> fits_int (plain_height (Rect x0 y0 x1 y1)) \<and>
    fits_int (plain_width (Bounds sheet)) \<and> fits_int (plain_height (Bounds sheet)) \<and>
    (plain_width (Rect x0 y0 x1 y1) > plain_width (Bounds sheet) \<or>
     plain_height (Rect x0 y0 x1 y1) > plain_height (Bounds sheet)) \<longrightarrow>
      loadBrushMask env c name = (Inl SpriteBoundsNotWithin, c'))"
proof (intro conjI impI)
  assume "loadBrushMask env c name = (Inr img, c')"
  from loadBrushMask_success [OF this] obtain sheet x0 y0 x1 y1 where
    *: "lazyLoadSpritesheet env c = (None, c')" "sprites c' = Some sheet"
       "spriteIndex c' name = Some [x0, y0, x1, y1]"
       "Dx (Rect x0 y0 x1 y1) \<le> Dx (Bounds sheet)" "Dy (Rect x0 y0 x1 y1) \<le> Dy (Bounds sheet)"
       "Bounds img = Intersect (Rect x0 y0 x1 y1) (Bounds sheet)" "In (Bounds img) (Bounds sheet)"
    by blast
  have "plain_width (Rect x0 y0 x1 y1) \<le> plain_width (Bounds sheet) \<and>
        plain_height (Rect x0 y0 x1 y1) \<le> plain_height (Bounds sheet)"
    if "fits_int (plain_width (Rect x0 y0 x1 y1)) \<and> fits_int (plain_height (Rect x0 y0 x1 y1)) \<and>
        fits_int (plain_width (Bounds sheet)) \<and> fits_int (plain_height (Bounds sheet))"
    using that *(4,5) by (simp add: Dx_plain Dy_plain)
  with * show "\<exists>sheet x0 y0 x1 y1.
         lazyLoadSpritesheet env c = (None, c') \<and>
         sprites c' = Some sheet \<and> spriteIndex c' name = Some [x0, y0, x1, y1] \<and>
         Dx (Rect x0 y0 x1 y1) \<le> Dx (Bounds sheet) \<and>
         Dy (Rect x0 y0 x1 y1) \<le> Dy (Bounds sheet) \<and>
         Bounds img = Intersect (Rect x0 y0 x1 y1) (Bounds sheet) \<and>
         In (Bounds img) (Bounds sheet) \<and>
         (fits_int (plain_width (Rect x0 y0 x1 y1)) \<and> fits_int (plain_height (Rect x0 y0 x1 y1)) \<and>
          fits_int (plain_width (Bounds sheet)) \<and> fits_int (plain_height (Bounds sheet)) \<longrightarrow>
            plain_width (Rect x0 y0 x1 y1) \<le> plain_width (Bounds sheet) \<and>
            plain_height (Rect x0 y0 x1 y1) \<le> plain_height (Bounds sheet))"
    by blast
next
  assume "lazyLoadSpritesheet env c = (None, c') \<and>
    sprites c' = Some sheet \<and> spriteIndex c' name = Some [x0, y0, x1, y1] \<and>
    (Dx (Rect x0 y0 x1 y1) > Dx (Bounds sheet) \<or> Dy (Rect x0 y0 x1 y1) > Dy (Bounds sheet))"
  then show "loadBrushMask env c name = (Inl SpriteBoundsNotWithin, c')"
    by (blast intro: loadBrushMask_too_large)
next
  assume a: "lazyLoadSpritesheet env c = (None, c') \<and>
    sprites c' = Some sheet \<and> spriteIndex c' name = Some [x0, y0, x1, y1] \<and>
    fits_int (plain_width (Rect x0 y0 x1 y1)) \<and> fits_int (plain_height (Rect x0 y0 x1 y1)) \<and>
    fits_int (plain_width (Bounds sheet)) \<and> fits_int (plain_height (Bounds sheet)) \<and>
    (plain_width (Rect x0 y0 x1 y1) > plain_width (Bounds sheet) \<or>
     plain_height (Rect x0 y0 x1 y1) > plain_height (Bounds sheet))"
  then have "Dx (Rect x0 y0 x1 y1) > Dx (Bounds sheet) \<or> Dy (Rect x0 y0 x1 y1) > Dy (Bounds sheet)"
    by (simp add: Dx_plain Dy_plain)
  with a show "loadBrushMask env c name = (Inl SpriteBoundsNotWithin, c')"
    by (blast intro: loadBrushMask_too_large)
qed

theorem loadBrushMask_bounds_witness:
  "loadBrushMask example_env example_context ''ballpoint'' =
     (Inr \<lparr>Pix = Pix example_sheet, Stride = 8, Bounds = Rect 0 0 1 1\<rparr>, example_loaded) \<and>
   In (Rect 0 0 1 1) (Bounds example_sheet) \<and>
   lazyLoadSpritesheet example_env example_context = (None, example_loaded) \<and>
   sprites example_loaded = Some example_sheet \<and>
   spriteIndex example_loaded ''marker'' = Some [0, 0, 3, 1] \<and>
   fits_int (plain_width (Rect 0 0 3 1)) \<and> fits_int (plain_height (Rect 0 0 3 1)) \<and>
   fits_int (plain_width (Bounds example_sheet)) \<and> fits_int (plain_height (Bounds example_sheet)) \<and>
   plain_width (Rect 0 0 3 1) > plain_width (Bounds example_sheet) \<and>
   Dx (Rect 0 0 3 1) > Dx (Bounds example_sheet) \<and>
   loadBrushMask example_env example_context ''marker'' =
     (Inl SpriteBoundsNotWithin, example_loaded)"
  using loadBrushMask_bounds [of example_env example_context "''ballpoint''"
      "\<lparr>Pix = Pix example_sheet, Stride = 8, Bounds = Rect 0 0 1 1\<rparr>" example_loaded]
    loadBrushMask_bounds [of example_env example_context "''marker''" _ example_loaded
      example_sheet 0 0 3 1]
  by (simp add: example_mask_ballpoint example_load)
     (simp add: example_loaded_def example_index_def example_sheet_def Dx_def Rect_def wrap64_def
        plain_width_def plain_height_def fits_int_def)

text \<open>
  Why the comparison is said of \<open>Dx\<close> and \<open>Dy\<close>: the fineliner's rectangle is \<open>2^64 - 1\<close>
  wide, its \<open>Dx\<close> wraps around to \<open>-1\<close>, the check lets it pass and the view on the top row
  of the sheet is returned.
\<close>

lemma loadBrushMask_wrapped_width:
  "spriteIndex example_loaded ''fineliner'' =
     Some [- 9223372036854775808, 0, 9223372036854775807, 1] \<and>
   plain_width (Rect (- 9223372036854775808) 0 9223372036854775807 1) = 2 ^ 64 - 1 \<and>
   Dx (Rect (- 9223372036854775808) 0 9223372036854775807 1) = - 1 \<and>
   loadBrushMask example_env example_context ''fineliner'' =
     (Inr \<lparr>Pix = Pix example_sheet, Stride = 8, Bounds = Rect 0 0 2 1\<rparr>, example_loaded)"
  by (simp add: loadBrushMask_def example_load)
     (simp add: example_loaded_def example_index_def example_sheet_def SubImage_def
        Intersect_def Empty_def Rect_def Dx_def Dy_def wrap64_def PixOffset_def Let_def
        plain_width_def)

text \<open>
  C2 as stated fails: the pencil's rectangle \<open>[1, 1, 3, 3]\<close> does not lie within the two
  by two sheet, and \<^verbatim>\<open>loadBrushMask\<close> returns the view clipped to \<open>[1, 1, 2, 2]\<close> with no
  error.
\<close>

theorem loadBrushMask_bounds_counterexample:
  "spriteIndex example_loaded ''pencil'' = Some [1, 1, 3, 3] \<and>
   sprites example_loaded = Some example_sheet \<and>
   \<not> In (Rect 1 1 3 3) (Bounds example_sheet) \<and>
   loadBrushMask example_env example_context ''pencil'' =
     (Inr \<lparr>Pix = [0, 0, 0, 255], Stride = 8, Bounds = Rect 1 1 2 2\<rparr>, example_loaded)"
  by (simp add: example_mask_pencil)
     (simp add: example_loaded_def example_index_def example_sheet_def In_def Empty_def Rect_def)

subsection \<open>Brush resolution\<close>

lemma brushName_other: "brushName (lines_OtherBrushType n) = []"
  by (simp add: brushName_def brushNames_def)

lemma brushNames_unlisted: "brushNames bt = None \<longleftrightarrow> (\<exists>n. bt = lines_OtherBrushType n)"
  by (cases bt) (simp_all add: brushNames_def)

text \<open>
  C1, as the code has it. With a colour that resolves: a brush type that the table
  \<open>brushNames\<close> does not list makes \<^verbatim>\<open>loadBrush\<close> fail with the unsupported-brush-type
  error, the context untouched. The base pen is the fallback of the listed type that has
  no variant of its own, \<open>lines_CalligraphyV5\<close>: there \<^verbatim>\<open>loadBrush\<close> returns the base pen
  whenever the \<open>ballpoint\<close> mask loads, and no other brush type is ever given a base pen.
\<close>

theorem loadBrush_unknown_kind:
  assumes "Palette_Color (palette c) bc = Some col"
  shows
    "(brushNames bt = None \<longrightarrow> loadBrush env c bt bc = (Inl (UnsupportedBrushType bt), c)) \<and>
     (loadBrushMask env c ''ballpoint'' = (Inr img, c') \<longrightarrow>
        loadBrush env c lines_CalligraphyV5 bc =
          (Inr (loadBasePen (CreateMask img) (Some col)), c')) \<and>
     (loadBrush env c bt bc = (Inr (BasePen m col'), c') \<longrightarrow> bt = lines_CalligraphyV5) \<and>
     (brushNames bt = None \<longleftrightarrow> (\<exists>n. bt = lines_OtherBrushType n))"
proof (intro conjI impI)
  show "brushNames bt = None \<longleftrightarrow> (\<exists>n. bt = lines_OtherBrushType n)"
    by (rule brushNames_unlisted)
next
  assume "brushNames bt = None"
  then show "loadBrush env c bt bc = (Inl (UnsupportedBrushType bt), c)"
    by (simp add: loadBrush_def assms brushName_def)
next
  assume "loadBrushMask env c ''ballpoint'' = (Inr img, c')"
  then show "loadBrush env c lines_CalligraphyV5 bc =
      (Inr (loadBasePen (CreateMask img) (Some col)), c')"
    by (simp add: loadBrush_def assms brushName_def brushNames_def Let_def)
next
  assume "loadBrush env c bt bc = (Inr (BasePen m col'), c')"
  then show "bt = lines_CalligraphyV5"
    by (cases bt)
       (auto simp: loadBrush_def assms Let_def brushName_other loadBasePen_def
          split: prod.splits sum.splits if_splits)
qed

theorem loadBrush_unknown_kind_witness:
  "Palette_Color (palette example_context) lines_Black = Some color_Black \<and>
   brushNames (lines_OtherBrushType 6) = None \<and>
   loadBrush example_env example_context (lines_OtherBrushType 6) lines_Black =
     (Inl (UnsupportedBrushType (lines_OtherBrushType 6)), example_context) \<and>
   loadBrush example_env example_context lines_CalligraphyV5 lines_Black =
     (Inr (BasePen (CreateMask \<lparr>Pix = Pix example_sheet, Stride = 8, Bounds = Rect 0 0 1 1\<rparr>)
        (Some color_Black)), example_loaded)"
  using loadBrush_unknown_kind [OF example_palette_Black, of "lines_OtherBrushType 6"
      example_env "\<lparr>Pix = Pix example_sheet, Stride = 8, Bounds = Rect 0 0 1 1\<rparr>" example_loaded]
  by (simp add: example_palette_Black example_mask_ballpoint brushNames_def loadBasePen_def)

text \<open>
  C1 as stated fails: with a colour that resolves, in a context where the ballpoint brush
  loads, the brush type \<open>lines_OtherBrushType 6\<close> makes \<^verbatim>\<open>loadBrush\<close> return an error.
\<close>

theorem loadBrush_unknown_kind_counterexample:
  "Palette_Color (palette example_context) lines_Black = Some color_Black \<and>
   \<not> isl (fst (loadBrush example_env example_context lines_Ballpoint lines_Black)) \<and>
   loadBrush example_env example_context (lines_OtherBrushType 6) lines_Black =
     (Inl (UnsupportedBrushType (lines_OtherBrushType 6)), example_context)"
  by (simp add: example_palette_Black example_brush_ballpoint)
     (simp add: loadBrush_def example_palette_Black brushName_other)

text \<open>
  C7. A brush resolved for a highlighter type has the palette's highlighter tint as its
  fill, whatever colour the stroke recorded: two resolutions, the second in the context
  the first left behind, give brushes of the same fill, and for two recorded colours
  that both resolve the whole result of \<^verbatim>\<open>loadBrush\<close> is the same.
\<close>

theorem highlighter_fill:
  assumes "bt \<in> {lines_Highlighter, lines_HighlighterV5}"
    and "bt' \<in> {lines_Highlighter, lines_HighlighterV5}"
  shows
    "(loadBrush env c bt bc = (Inr b, c1) \<longrightarrow>
        fill b = Some (NewUniform (pal_Highlighter (palette c)))) \<and>
     (loadBrush env c bt bc = (Inr b, c1) \<and> loadBrush env' c1 bt' bc' = (Inr b', c2) \<longrightarrow>
        fill b' = fill b) \<and>
     (Palette_Color (palette c) bc \<noteq> None \<and> Palette_Color (palette c) bc' \<noteq> None \<longrightarrow>
        loadBrush env c bt bc' = loadBrush env c bt bc)"
proof -
  have tint: "fill x = Some (NewUniform (pal_Highlighter (palette k)))"
    if "loadBrush e k t col = (Inr x, k')" "t \<in> {lines_Highlighter, lines_HighlighterV5}"
    for e k t col x k'
    using that
    by (auto simp: loadBrush_def Let_def split: option.splits prod.splits sum.splits if_splits)
  have same: "palette c1 = palette c" if "loadBrush env c bt bc = (Inr b, c1)"
    using loadBrush_palette [of env c bt bc] that by simp
  have indep: "loadBrush env c bt bc' = loadBrush env c bt bc"
    if "Palette_Color (palette c) bc \<noteq> None" "Palette_Color (palette c) bc' \<noteq> None"
    using that assms(1)
    by (auto simp: loadBrush_def Let_def split: prod.splits sum.splits)
  show ?thesis
    using tint [OF _ assms(1)] tint [OF _ assms(2)] same indep by auto
qed

theorem highlighter_fill_witness:
  "loadBrush example_env example_context lines_Highlighter lines_Black =
     (Inr (Highlighter
        (CreateMask \<lparr>Pix = drop 4 (Pix example_sheet), Stride = 8, Bounds = Rect 1 0 2 1\<rparr>)
        (NewUniform (Some (color_RGBA 255 255 0 255)))), example_loaded) \<and>
   loadBrush example_env example_context lines_HighlighterV5 lines_Gray =
     loadBrush example_env example_context lines_HighlighterV5 lines_Black \<and>
   Palette_Color (palette example_context) lines_Gray = Some (color_RGBA 1 2 3 255) \<and>
   Palette_Color (palette example_context) lines_Black = Some color_Black"
proof -
  have g: "Palette_Color (palette example_context) lines_Gray = Some (color_RGBA 1 2 3 255)"
    by (simp add: example_context_def NewContext_def example_palette_def NewPalette_def
        Palette_Color_def)
  have h: "pal_Highlighter (palette example_context) = Some (color_RGBA 255 255 0 255)"
    by (simp add: example_context_def NewContext_def example_palette_def NewPalette_def)
  have l: "loadBrush example_env example_context lines_Highlighter lines_Black =
     (Inr (Highlighter
        (CreateMask \<lparr>Pix = drop 4 (Pix example_sheet), Stride = 8, Bounds = Rect 1 0 2 1\<rparr>)
        (NewUniform (Some (color_RGBA 255 255 0 255)))), example_loaded)"
    by (simp add: loadBrush_def example_palette_Black brushName_def brushNames_def
        example_mask_highlighter Let_def h)
  show ?thesis
    using highlighter_fill [where bt = lines_HighlighterV5 and bt' = lines_Highlighter
        and env = example_env and c = example_context and bc = lines_Black and bc' = lines_Gray]
      g l
    by (simp add: example_palette_Black)
qed

subsection \<open>PDF assembly\<close>

text \<open>
  C6. For a document whose file type is EPUB, \<^verbatim>\<open>renderPdf\<close> (and with it \<^verbatim>\<open>Context.Pdf\<close>)
  fails at once with the error that names the unsupported file type: whatever the page
  renderer and the library would do, the context is as before, so no page has been
  rendered, and the writer holds the bytes it held before.
\<close>

theorem renderPdf_epub:
  "doc_FileType d = Epub \<Longrightarrow>
     renderPdf deps c d w = (Some (RenderPdfNotSupported Epub), c, w) \<and>
     Context_Pdf deps c d w = (Some (RenderPdfNotSupported Epub), c, w)"
  by (simp add: renderPdf_def Context_Pdf_def)

theorem renderPdf_epub_witness:
  "renderPdf example_deps example_context (example_doc\<lparr>doc_FileType := Epub\<rparr>) [1, 2] =
     (Some (RenderPdfNotSupported Epub), example_context, [1, 2])"
  using renderPdf_epub [of "example_doc\<lparr>doc_FileType := Epub\<rparr>" example_deps example_context "[1, 2]"]
  by simp

lemma drawingsPdf_loop_append:
  "drawingsPdf_loop deps c pdf d i (ps @ qs) =
     (case drawingsPdf_loop deps c pdf d i ps of
        (Some err, pdf', c') \<Rightarrow> (Some err, pdf', c')
      | (None, pdf', c') \<Rightarrow> drawingsPdf_loop deps c' pdf' d (i + length ps) qs)"
  by (induction ps arbitrary: c pdf i) (auto split: prod.splits option.splits)

lemma drawingsPdf_loop_failure:
  assumes "drawingsPdf_loop deps c pdf d 0 ps = (None, pdf1, c1)"
    and "doRenderPdfPage deps c1 pdf1 d p (length ps) = (Some e, pdf2, c2)"
  shows "drawingsPdf_loop deps c pdf d 0 (ps @ p # rest) = (Some e, pdf2, c2)"
  using assms by (simp add: drawingsPdf_loop_append)

lemma drawingsPdf_loop_success:
  assumes "drawingsPdf_loop deps c pdf d 0 (ps @ p # rest) = (None, pdf', c')"
  shows "\<exists>pdf1 c1 pdf2 c2.
           drawingsPdf_loop deps c pdf d 0 ps = (None, pdf1, c1) \<and>
           doRenderPdfPage deps c1 pdf1 d p (length ps) = (None, pdf2, c2)"
  using assms
  by (auto simp: drawingsPdf_loop_append split: prod.splits option.splits)

lemma renderPdf_written:
  assumes "snd (snd (renderPdf deps c d w)) \<noteq> w"
  shows "doc_FileType d \<noteq> Epub \<and>
         (\<exists>pdf' c'. (if doc_FileType d = Pdf
                      then overlayPdf deps c d (setupPdf defaultPageSize (Some d))
                      else drawingsPdf deps c (setupPdf defaultPageSize (Some d)) d) =
                     (None, pdf', c') \<and>
                    renderPdf deps c d w =
                      (fst (pdf_Output deps pdf' w), c', snd (pdf_Output deps pdf' w)))"
  using assms
  by (auto simp: renderPdf_def Let_def split: prod.splits option.splits if_splits)

text \<open>
  C5. Rendering a whole document is atomic. When the pages before some page of the
  document's page order have rendered and that page fails, \<^verbatim>\<open>renderPdf\<close> returns that
  page's error and the writer holds the bytes it held before; the same for an error of
  the overlay of a PDF-backed document. When the writer's bytes have changed, every page
  of the page order has rendered without an error (for a PDF-backed document: the
  overlay has returned none).
\<close>

theorem renderPdf_atomic:
  "(doc_FileType d \<notin> {Epub, Pdf} \<and> doc_Pages d = ps @ p # rest \<and>
    drawingsPdf_loop deps c (setupPdf defaultPageSize (Some d)) d 0 ps = (None, pdf1, c1) \<and>
    doRenderPdfPage deps c1 pdf1 d p (length ps) = (Some e, pdf2, c2) \<longrightarrow>
      renderPdf deps c d w = (Some e, c2, w)) \<and>
   (doc_FileType d = Pdf \<and>
    overlayPdf deps c d (setupPdf defaultPageSize (Some d)) = (Some e, pdf2, c2) \<longrightarrow>
      renderPdf deps c d w = (Some e, c2, w)) \<and>
   (snd (snd (renderPdf deps c d w)) \<noteq> w \<and> doc_FileType d \<noteq> Pdf \<and>
    doc_Pages d = ps @ p # rest \<longrightarrow>
      (\<exists>pdf1 c1 pdf2 c2.
         drawingsPdf_loop deps c (setupPdf defaultPageSize (Some d)) d 0 ps = (None, pdf1, c1) \<and>
         doRenderPdfPage deps c1 pdf1 d p (length ps) = (None, pdf2, c2))) \<and>
   (snd (snd (renderPdf deps c d w)) \<noteq> w \<and> doc_FileType d = Pdf \<longrightarrow>
      fst (overlayPdf deps c d (setupPdf defaultPageSize (Some d))) = None)"
proof (intro conjI impI)
  assume a: "doc_FileType d \<notin> {Epub, Pdf} \<and> doc_Pages d = ps @ p # rest \<and>
    drawingsPdf_loop deps c (setupPdf defaultPageSize (Some d)) d 0 ps = (None, pdf1, c1) \<and>
    doRenderPdfPage deps c1 pdf1 d p (length ps) = (Some e, pdf2, c2)"
  then have "drawingsPdf deps c (setupPdf defaultPageSize (Some d)) d = (Some e, pdf2, c2)"
    by (simp add: drawingsPdf_def drawingsPdf_loop_failure)
  with a show "renderPdf deps c d w = (Some e, c2, w)"
    by (simp add: renderPdf_def)
next
  assume "doc_FileType d = Pdf \<and>
    overlayPdf deps c d (setupPdf defaultPageSize (Some d)) = (Some e, pdf2, c2)"
  then show "renderPdf deps c d w = (Some e, c2, w)"
    by (simp add: renderPdf_def enum_defs)
next
  assume a: "snd (snd (renderPdf deps c d w)) \<noteq> w \<and> doc_FileType d \<noteq> Pdf \<and>
    doc_Pages d = ps @ p # rest"
  with renderPdf_written [of deps c d w] obtain pdf' c' where
    "drawingsPdf_loop deps c (setupPdf defaultPageSize (Some d)) d 0 (ps @ p # rest) =
       (None, pdf', c')"
    by (auto simp: drawingsPdf_def)
  then show "\<exists>pdf1 c1 pdf2 c2.
         drawingsPdf_loop deps c (setupPdf defaultPageSize (Some d)) d 0 ps = (None, pdf1, c1) \<and>
         doRenderPdfPage deps c1 pdf1 d p (length ps) = (None, pdf2, c2)"
    by (rule drawingsPdf_loop_success)
next
  assume "snd (snd (renderPdf deps c d w)) \<noteq> w \<and> doc_FileType d = Pdf"
  with renderPdf_written [of deps c d w]
  show "fst (overlayPdf deps c d (setupPdf defaultPageSize (Some d))) = None"
    by auto
qed

lemma example_page1:
  "drawingsPdf_loop example_deps example_context (setupPdf defaultPageSize (Some example_doc))
      example_doc 0 [''p1''] = (None, example_pdf1, example_context)"
  by (simp add: setupPdf_def defaultPageSize_def doRenderPdfPage_def drawingToPdf_def
      example_doc_def example_deps_def example_pdf1_def Let_def)

lemma example_page2:
  "doRenderPdfPage example_deps example_context example_pdf1 example_doc ''p2'' (length [''p1'']) =
     (Some (IOError ''no such page''), example_pdf1, example_context)"
  by (simp add: doRenderPdfPage_def example_doc_def)

lemma example_all_pages:
  "renderPdf example_deps example_context (example_doc\<lparr>doc_Pages := [''p1'']\<rparr>) [1, 2] =
     (None, example_context, [1, 2, 7])"
  by (simp add: renderPdf_def drawingsPdf_def setupPdf_def doRenderPdfPage_def drawingToPdf_def
      example_doc_def example_deps_def enum_defs Let_def)

theorem renderPdf_atomic_witness:
  "doc_FileType example_doc \<notin> {Epub, Pdf} \<and> doc_Pages example_doc = [''p1''] @ ''p2'' # [] \<and>
   drawingsPdf_loop example_deps example_context (setupPdf defaultPageSize (Some example_doc))
      example_doc 0 [''p1''] = (None, example_pdf1, example_context) \<and>
   doRenderPdfPage example_deps example_context example_pdf1 example_doc ''p2'' (length [''p1'']) =
     (Some (IOError ''no such page''), example_pdf1, example_context) \<and>
   renderPdf example_deps example_context example_doc [1, 2] =
     (Some (IOError ''no such page''), example_context, [1, 2]) \<and>
   renderPdf example_deps example_context (example_doc\<lparr>doc_Pages := [''p1'']\<rparr>) [1, 2] =
     (None, example_context, [1, 2, 7])"
proof -
  have a: "doc_FileType example_doc \<notin> {Epub, Pdf}"
    and b: "doc_Pages example_doc = [''p1''] @ ''p2'' # []"
    by (simp_all add: example_doc_def enum_defs)
  from renderPdf_atomic [of example_doc "[''p1'']" "''p2''" "[]" example_deps example_context
      example_pdf1 example_context "IOError ''no such page''" example_pdf1 example_context "[1, 2]"]
    a b example_page1 example_page2
  have "renderPdf example_deps example_context example_doc [1, 2] =
     (Some (IOError ''no such page''), example_context, [1, 2])"
    by blast
  with a b example_page1 example_page2 example_all_pages show ?thesis
    by blast
qed

text \<open>
  C9. The single-page entry point \<^verbatim>\<open>PdfPage\<close> makes no check of the file type: its result
  does not depend on it. For an EPUB-backed document whose page has a drawing that
  renders, it goes on to the output of a one-page PDF, where \<^verbatim>\<open>renderPdf\<close> on the same
  document fails with the unsupported-file-type error.
\<close>

theorem PdfPage_no_file_kind_check:
  "PdfPage deps c (d\<lparr>doc_FileType := ft\<rparr>) pageID w = PdfPage deps c d pageID w \<and>
   (doc_Drawing d pageID = Inr dr \<and> renderPNG deps c dr False = (Inr png, c') \<and>
    imgId = uuid_New deps \<lparr>pdf_pageSize = defaultPageSize, pdf_meta = None, pdf_ops = [AddPage]\<rparr> \<and>
    pdf' = \<lparr>pdf_pageSize = defaultPageSize, pdf_meta = None,
            pdf_ops = [AddPage, RegisterImageOptionsReader imgId png, ImageOptions imgId]\<rparr> \<longrightarrow>
      PdfPage deps c (d\<lparr>doc_FileType := Epub\<rparr>) pageID w =
        (fst (pdf_Output deps pdf' w), c', snd (pdf_Output deps pdf' w)) \<and>
      renderPdf deps c (d\<lparr>doc_FileType := Epub\<rparr>) w = (Some (RenderPdfNotSupported Epub), c, w))"
  by (auto simp: PdfPage_def doRenderPdfPage_def drawingToPdf_def setupPdf_def renderPdf_def
      Let_def split: prod.splits sum.splits option.splits)

theorem PdfPage_no_file_kind_check_witness:
  "doc_Drawing example_doc ''p1'' = Inr 7 \<and>
   renderPNG example_deps example_context 7 False = (Inr [7], example_context) \<and>
   PdfPage example_deps example_context (example_doc\<lparr>doc_FileType := Epub\<rparr>) ''p1'' [1, 2] =
     (None, example_context, [1, 2, 7]) \<and>
   renderPdf example_deps example_context (example_doc\<lparr>doc_FileType := Epub\<rparr>) [1, 2] =
     (Some (RenderPdfNotSupported Epub), example_context, [1, 2])"
  using PdfPage_no_file_kind_check [where deps = example_deps and c = example_context
      and d = example_doc and pageID = "''p1''" and w = "[1, 2]" and dr = 7 and png = "[7]"
      and c' = example_context and imgId = "''img''"
      and pdf' = "\<lparr>pdf_pageSize = defaultPageSize, pdf_meta = None,
         pdf_ops = [AddPage, RegisterImageOptionsReader ''img'' [7], ImageOptions ''img'']\<rparr>"]
  by (simp add: example_doc_def example_deps_def)

end
